theory Spec2Isabelle
  imports Main "HOL-Library.AList" "HOL-Library.Sublist"
begin

section \<open>Python values and exceptions\<close>

text \<open>
  The exceptions that \<^verbatim>\<open>autokeras/tuner.py\<close> can raise, as values. \<open>ValueError\<close> is
  the one the module raises itself (Python's invalid-argument exception); \<open>KeyError\<close>
  and \<open>IndexError\<close> come from the dictionary subscripts and from \<^verbatim>\<open>[0]\<close> in
  \<^verbatim>\<open>AutoTuner.search\<close>; \<open>AttributeError\<close> and \<open>TypeError\<close> from calling
  \<^verbatim>\<open>concatenate\<close> on or with something that is no dataset; \<open>External\<close> is whatever
  a collaborator (KerasTuner, Keras) raises.
\<close>

datatype error =
    ValueError string
  | KeyError string
  | IndexError
  | AttributeError
  | TypeError
  | External string

section \<open>The tuner registry\<close>

text \<open>
  The classes of the module that the registry names. \<^verbatim>\<open>AutoTuner\<close> itself is not a
  value of \<^verbatim>\<open>TUNER_CLASSES\<close>, but it is a class a caller can pass.
\<close>

datatype tuner_class =
    AutoTuner
  | RandomSearch
  | Hyperband
  | BayesianOptimization
  | Greedy
  | ImageClassifierTuner

text \<open>
  \<^verbatim>\<open>TUNER_CLASSES\<close>, in the order the dictionary literal gives its keys.
\<close>

definition TUNER_CLASSES :: "(string \<times> tuner_class) list" where
  "TUNER_CLASSES =
    [(''bayesian'', BayesianOptimization),
     (''random'', RandomSearch),
     (''hyperband'', Hyperband),
     (''greedy'', Greedy),
     (''image_classifier'', ImageClassifierTuner),
     (''image_regressor'', Greedy),
     (''text_classifier'', Greedy),
     (''text_regressor'', Greedy),
     (''structured_data_classifier'', Greedy),
     (''structured_data_regressor'', Greedy)]"

text \<open>
  What a caller can pass as \<^verbatim>\<open>tuner\<close>: a string, one of the classes, or \<^verbatim>\<open>None\<close>.
\<close>

datatype tuner_arg =
    Str string
  | Cls tuner_class
  | NoneArg

fun class_name :: "tuner_class \<Rightarrow> string" where
  "class_name AutoTuner = ''AutoTuner''"
| "class_name RandomSearch = ''RandomSearch''"
| "class_name Hyperband = ''Hyperband''"
| "class_name BayesianOptimization = ''BayesianOptimization''"
| "class_name Greedy = ''Greedy''"
| "class_name ImageClassifierTuner = ''ImageClassifierTuner''"

text \<open>
  \<^verbatim>\<open>'{tuner}'.format(tuner=tuner)\<close>: a string is inserted as it is, a class as
  \<^verbatim>\<open><class 'autokeras.tuner.Name'>\<close>, \<^verbatim>\<open>None\<close> as \<^verbatim>\<open>None\<close>.
\<close>

fun format_arg :: "tuner_arg \<Rightarrow> string" where
  \<open>format_arg (Str s) = s\<close>
| \<open>format_arg (Cls c) = ''<class 'autokeras.tuner.'' @ class_name c @ '''>''\<close>
| \<open>format_arg NoneArg = ''None''\<close>

definition invalid_tuner_message :: "tuner_arg \<Rightarrow> string" where
  \<open>invalid_tuner_message tuner =
     ''The value '' @ format_arg tuner @
     '' passed for argument tuner is invalid, '' @
     ''expected one of "greedy", "random", "hyperband", '' @
     ''"bayesian".''\<close>

text \<open>
  \<^verbatim>\<open>get_tuner_class\<close>. \<^verbatim>\<open>isinstance(tuner, str) and tuner in TUNER_CLASSES\<close> is the
  first equation's test; everything else raises.
\<close>

fun get_tuner_class :: "tuner_arg \<Rightarrow> error + tuner_class" where
  "get_tuner_class (Str s) =
     (case map_of TUNER_CLASSES s of
        Some c \<Rightarrow> Inr c
      | None \<Rightarrow> Inl (ValueError (invalid_tuner_message (Str s))))"
| "get_tuner_class tuner = Inl (ValueError (invalid_tuner_message tuner))"

section \<open>File paths\<close>

text \<open>
  \<^verbatim>\<open>os.path.join\<close> of the POSIX path module, which is in Python's standard library
  and not in this repository: a component that starts with the separator replaces
  what was joined so far; one that follows an empty path or a path that ends with the
  separator is appended as it is; any other is appended after a separator.
\<close>

fun path_join :: "string \<Rightarrow> string list \<Rightarrow> string" where
  "path_join path [] = path"
| "path_join path (b # p) =
     (if take 1 b = ''/'' then path_join b p
      else if path = [] \<or> last path = CHR ''/'' then path_join (path @ b) p
      else path_join (path @ ''/'' @ b) p)"

section \<open>Callbacks, datasets and keyword arguments\<close>

text \<open>
  A callback is either an instance of \<^verbatim>\<open>tf.keras.callbacks.EarlyStopping\<close>, with its
  patience, or some other callback, told apart by a number. Only the \<^verbatim>\<open>isinstance\<close>
  test of the tuner looks at a callback.
\<close>

datatype callback =
    EarlyStopping nat
  | OtherCallback nat

fun is_early_stopping :: "callback \<Rightarrow> bool" where
  "is_early_stopping (EarlyStopping patience) = True"
| "is_early_stopping (OtherCallback n) = False"

text \<open>
  Callback lists are mutable Python objects: they live in a store, and a variable holds
  a reference to one.
\<close>

type_synonym ref = nat

text \<open>
  The values of \<^verbatim>\<open>fit_kwargs\<close>: a dataset (its examples, as numbers), a reference to
  a callback list, an integer such as \<^verbatim>\<open>epochs\<close>, or \<^verbatim>\<open>None\<close>.
\<close>

datatype pyval =
    Dataset "nat list"
  | ListRef ref
  | IntVal int
  | NoneVal

text \<open>
  \<^verbatim>\<open>fit_kwargs\<close> is a dictionary with string keys: an association list in insertion
  order, read with \<^const>\<open>map_of\<close> and assigned to with \<^const>\<open>AList.update\<close> (which
  replaces the value of a key that is there and appends a new key at the end).
\<close>

type_synonym kwargs = "(string \<times> pyval) list"

definition getitem :: "kwargs \<Rightarrow> string \<Rightarrow> error + pyval" where
  "getitem d k = (case map_of d k of None \<Rightarrow> Inl (KeyError k) | Some v \<Rightarrow> Inr v)"

text \<open>
  Modelled from the spec: \<^verbatim>\<open>Dataset.concatenate\<close> belongs to TensorFlow and is not
  under the repository's sources. The spec says that the training input is concatenated
  with the validation dataset so that the final fit sees the union of both, of size
  training-set size plus validation-set size: the examples of the receiver followed by
  those of the argument. A value that is no dataset has no such method, and a dataset
  refuses an argument that is no dataset.
\<close>

fun getattr_concatenate :: "pyval \<Rightarrow> error + nat list" where
  "getattr_concatenate (Dataset xs) = Inr xs"
| "getattr_concatenate v = Inl AttributeError"

fun concatenate :: "nat list \<Rightarrow> pyval \<Rightarrow> error + pyval" where
  "concatenate xs (Dataset ys) = Inr (Dataset (xs @ ys))"
| "concatenate xs v = Inl TypeError"

fun dataset_size :: "pyval \<Rightarrow> nat" where
  "dataset_size (Dataset xs) = length xs"
| "dataset_size v = 0"

section \<open>The collaborators and what is observed of them\<close>

text \<open>
  A trial of the oracle, as far as the tuner reads it. Hyperparameters (\<open>'h\<close>) and
  models (\<open>'m\<close>) are opaque to the tuner.
\<close>

record 'h trial =
  trial_id :: nat
  hyperparameters :: 'h

text \<open>
  The calls the tuner makes to KerasTuner and Keras, in the order it makes them. Each
  records its arguments; a call that receives a callback list records the reference it
  was handed and the contents of that list at the time of the call.
\<close>

datatype ('h, 'm) event =
    is_BaseSearch: BaseSearch ref "callback list" kwargs
  | is_GetBestTrials: GetBestTrials nat
  | is_Build: Build 'h
  | is_Fit: Fit 'm ref "callback list" kwargs
  | is_GetBestModels: GetBestModels
  | is_SaveWeights: SaveWeights 'm string

text \<open>
  What the collaborators answer. None of them is under the repository's sources, so
  each is a parameter: the base class's \<^verbatim>\<open>search\<close> and \<^verbatim>\<open>get_best_models\<close>, the
  oracle's \<^verbatim>\<open>get_best_trials\<close>, the hypermodel's \<^verbatim>\<open>build\<close>, and the model's
  \<^verbatim>\<open>fit\<close> and \<^verbatim>\<open>save_weights\<close>. Each may raise. The two that are handed a callback
  list may also change that list: they return its contents after the call. \<^verbatim>\<open>fit\<close>
  trains the model in place: it returns the model after training.
\<close>

record ('h, 'm) collab =
  base_search :: "callback list \<Rightarrow> kwargs \<Rightarrow> callback list \<times> error option"
  get_best_trials :: "nat \<Rightarrow> error + 'h trial list"
  build :: "'h \<Rightarrow> error + 'm"
  fit :: "'m \<Rightarrow> callback list \<Rightarrow> kwargs \<Rightarrow> callback list \<times> (error + 'm)"
  get_best_models :: "error + 'm list"
  save_weights :: "'m \<Rightarrow> string \<Rightarrow> error option"

text \<open>
  Everything outside the tuner object that a call of \<^verbatim>\<open>search\<close> reads or changes:
  the store of callback lists, the next unused reference, and the calls made so far.
\<close>

record ('h, 'm) world =
  store :: "ref \<Rightarrow> callback list option"
  next_ref :: ref
  trace :: "('h, 'm) event list"

definition deref :: "('h, 'm) world \<Rightarrow> ref \<Rightarrow> callback list" where
  "deref w r = (case store w r of None \<Rightarrow> [] | Some cbs \<Rightarrow> cbs)"

definition alloc :: "callback list \<Rightarrow> ('h, 'm) world \<Rightarrow> ref \<times> ('h, 'm) world" where
  "alloc cbs w =
     (next_ref w, w\<lparr>store := (store w)(next_ref w \<mapsto> cbs), next_ref := Suc (next_ref w)\<rparr>)"

definition assign :: "ref \<Rightarrow> callback list \<Rightarrow> ('h, 'm) world \<Rightarrow> ('h, 'm) world" where
  "assign r cbs w = w\<lparr>store := (store w)(r \<mapsto> cbs)\<rparr>"

definition record_call :: "('h, 'm) event \<Rightarrow> ('h, 'm) world \<Rightarrow> ('h, 'm) world" where
  "record_call ev w = w\<lparr>trace := trace w @ [ev]\<rparr>"

text \<open>
  \<^verbatim>\<open>Tuner._deepcopy_callbacks\<close> of KerasTuner: \<^verbatim>\<open>copy.deepcopy\<close> of the list, a new
  list object with copies of the callbacks.
\<close>

definition deepcopy_callbacks :: "ref \<Rightarrow> ('h, 'm) world \<Rightarrow> ref \<times> ('h, 'm) world" where
  "deepcopy_callbacks r w = alloc (deref w r) w"

text \<open>
  \<^verbatim>\<open>any([isinstance(callback, tf.keras.callbacks.EarlyStopping) for callback in callbacks])\<close>
\<close>

definition any_early_stopping :: "('h, 'm) world \<Rightarrow> ref \<Rightarrow> bool" where
  "any_early_stopping w r = list_ex is_early_stopping (deref w r)"

section \<open>AutoTuner\<close>

record tuner =
  finished :: bool
  project_dir :: string

text \<open>
  \<^verbatim>\<open>AutoTuner.__init__\<close>: the base class sets the tuner up (of which only the project
  directory matters here), then \<^verbatim>\<open>self._finished = False\<close>.
\<close>

definition AutoTuner_init :: "string \<Rightarrow> tuner" where
  "AutoTuner_init dir = \<lparr>finished = False, project_dir = dir\<rparr>"

definition best_model_path :: "tuner \<Rightarrow> string" where
  "best_model_path self = path_join (project_dir self) [''best_model'']"

text \<open>
  Lines 59 to 64 of \<^verbatim>\<open>search\<close>: \<^verbatim>\<open>None\<close> and the empty list are both falsy and are
  replaced by a new empty list; the working list is a deep copy; an early-stopping
  callback with patience 10 is appended to the copy when \<^verbatim>\<open>callbacks\<close> has none.
  Returns \<^verbatim>\<open>callbacks\<close> and \<^verbatim>\<open>new_callbacks\<close>.
\<close>

definition inject_early_stopping ::
  "ref option \<Rightarrow> ('h, 'm) world \<Rightarrow> ref \<times> ref \<times> ('h, 'm) world" where
  "inject_early_stopping callbacks w =
     (let (callbacks', w1) =
            (case callbacks of
               None \<Rightarrow> alloc [] w
             | Some r \<Rightarrow> if deref w r = [] then alloc [] w else (r, w));
          (new_callbacks, w2) = deepcopy_callbacks callbacks' w1;
          w3 = (if \<not> any_early_stopping w2 callbacks'
                then assign new_callbacks (deref w2 new_callbacks @ [EarlyStopping 10]) w2
                else w2)
      in (callbacks', new_callbacks, w3))"

text \<open>
  Line 66: \<^verbatim>\<open>super().search(callbacks=new_callbacks, **fit_kwargs)\<close>.
\<close>

definition super_search ::
  "('h, 'm) collab \<Rightarrow> ref \<Rightarrow> kwargs \<Rightarrow> ('h, 'm) world \<Rightarrow> error option \<times> ('h, 'm) world" where
  "super_search c new_callbacks fit_kwargs w =
     (let cbs = deref w new_callbacks;
          w1 = record_call (BaseSearch new_callbacks cbs fit_kwargs) w;
          (cbs', raised) = base_search c cbs fit_kwargs
      in (raised, assign new_callbacks cbs' w1))"

text \<open>
  Lines 74 to 76: the subscript \<^verbatim>\<open>fit_kwargs['x']\<close> is evaluated first, then its
  attribute \<^verbatim>\<open>concatenate\<close>, then the argument \<^verbatim>\<open>fit_kwargs['validation_data']\<close>, then
  the call; the result is assigned to \<^verbatim>\<open>fit_kwargs['x']\<close>.
\<close>

definition concatenate_validation_data :: "kwargs \<Rightarrow> error + kwargs" where
  "concatenate_validation_data fit_kwargs =
     (case getitem fit_kwargs ''x'' of
        Inl e \<Rightarrow> Inl e
      | Inr x \<Rightarrow>
          (case getattr_concatenate x of
             Inl e \<Rightarrow> Inl e
           | Inr xs \<Rightarrow>
               (case getitem fit_kwargs ''validation_data'' of
                  Inl e \<Rightarrow> Inl e
                | Inr v \<Rightarrow>
                    (case concatenate xs v of
                       Inl e \<Rightarrow> Inl e
                     | Inr xv \<Rightarrow> Inr (AList.update ''x'' xv fit_kwargs)))))"

text \<open>
  Lines 71 to 78, the full retrain.
\<close>

definition full_retrain ::
  "('h, 'm) collab \<Rightarrow> ref \<Rightarrow> bool \<Rightarrow> kwargs \<Rightarrow> ('h, 'm) world \<Rightarrow> (error + 'm) \<times> ('h, 'm) world" where
  "full_retrain c callbacks fit_on_val_data fit_kwargs w =
     (let w1 = record_call (GetBestTrials 1) w in
      case get_best_trials c 1 of
        Inl e \<Rightarrow> (Inl e, w1)
      | Inr [] \<Rightarrow> (Inl IndexError, w1)
      | Inr (best_trial # others) \<Rightarrow>
          (let best_hp = hyperparameters best_trial;
               (copied, w2) = deepcopy_callbacks callbacks w1;
               fit_kwargs1 = AList.update ''callbacks'' (ListRef copied) fit_kwargs
           in case (if fit_on_val_data then concatenate_validation_data fit_kwargs1
                    else Inr fit_kwargs1) of
                Inl e \<Rightarrow> (Inl e, w2)
              | Inr fit_kwargs2 \<Rightarrow>
                  (let w3 = record_call (Build best_hp) w2 in
                   case build c best_hp of
                     Inl e \<Rightarrow> (Inl e, w3)
                   | Inr model \<Rightarrow>
                       (let cbs = deref w3 copied;
                            w4 = record_call (Fit model copied cbs fit_kwargs2) w3;
                            (cbs', fitted) = fit c model cbs fit_kwargs2
                        in (fitted, assign copied cbs' w4)))))"

text \<open>
  Line 80: \<^verbatim>\<open>model = self.get_best_models()[0]\<close>.
\<close>

definition tracked_best_model ::
  "('h, 'm) collab \<Rightarrow> ('h, 'm) world \<Rightarrow> (error + 'm) \<times> ('h, 'm) world" where
  "tracked_best_model c w =
     (let w1 = record_call GetBestModels w in
      case get_best_models c of
        Inl e \<Rightarrow> (Inl e, w1)
      | Inr [] \<Rightarrow> (Inl IndexError, w1)
      | Inr (model # others) \<Rightarrow> (Inr model, w1))"

text \<open>
  \<^verbatim>\<open>AutoTuner.search\<close>. The result is the exception raised, if any, with the tuner and
  the world as the call leaves them.
\<close>

definition search ::
  "('h, 'm) collab \<Rightarrow> ref option \<Rightarrow> bool \<Rightarrow> kwargs \<Rightarrow> tuner \<Rightarrow> ('h, 'm) world
     \<Rightarrow> error option \<times> tuner \<times> ('h, 'm) world" where
  "search c callbacks fit_on_val_data fit_kwargs self w =
     (if finished self then (None, self, w)
      else
        (let (callbacks', new_callbacks, w1) = inject_early_stopping callbacks w in
         case super_search c new_callbacks fit_kwargs w1 of
           (Some e, w2) \<Rightarrow> (Some e, self, w2)
         | (None, w2) \<Rightarrow>
             (case (if \<not> any_early_stopping w2 callbacks' \<or> fit_on_val_data
                    then full_retrain c callbacks' fit_on_val_data fit_kwargs w2
                    else tracked_best_model c w2) of
                (Inl e, w3) \<Rightarrow> (Some e, self, w3)
              | (Inr model, w3) \<Rightarrow>
                  (let w4 = record_call (SaveWeights model (best_model_path self)) w3 in
                   case save_weights c model (best_model_path self) of
                     Some e \<Rightarrow> (Some e, self, w4)
                   | None \<Rightarrow> (None, self\<lparr>finished := True\<rparr>, w4)))))"

section \<open>What a call of search is observed to do\<close>

text \<open>
  The list the caller supplied: \<^verbatim>\<open>None\<close> stands for no callbacks.
\<close>

fun caller_list :: "('h, 'm) world \<Rightarrow> ref option \<Rightarrow> callback list" where
  "caller_list w None = []"
| "caller_list w (Some a) = deref w a"

text \<open>
  A list that the caller passes was allocated before the call.
\<close>

fun valid_callbacks :: "('h, 'm) world \<Rightarrow> ref option \<Rightarrow> bool" where
  "valid_callbacks w None = True"
| "valid_callbacks w (Some a) = (a < next_ref w)"

text \<open>
  The calls made between two worlds, the second reached from the first.
\<close>

definition new_events :: "('h, 'm) world \<Rightarrow> ('h, 'm) world \<Rightarrow> ('h, 'm) event list" where
  "new_events w w' = drop (length (trace w)) (trace w')"

text \<open>
  The spec's working list: the original list, with an early-stopping callback of
  patience 10 appended when the original has none.
\<close>

definition working_list :: "callback list \<Rightarrow> callback list" where
  "working_list orig =
     (if list_ex is_early_stopping orig then orig else orig @ [EarlyStopping 10])"

text \<open>
  What a call hands over: the callback list of a base search, the callback list of a
  fit, the reference of either, and the input \<^verbatim>\<open>x\<close> of a fit.
\<close>

fun base_search_callbacks :: "('h, 'm) event \<Rightarrow> callback list list" where
  "base_search_callbacks (BaseSearch r cbs kw) = [cbs]"
| "base_search_callbacks ev = []"

fun fit_callbacks :: "('h, 'm) event \<Rightarrow> callback list list" where
  "fit_callbacks (Fit m r cbs kw) = [cbs]"
| "fit_callbacks ev = []"

fun handed_refs :: "('h, 'm) event \<Rightarrow> ref list" where
  "handed_refs (BaseSearch r cbs kw) = [r]"
| "handed_refs (Fit m r cbs kw) = [r]"
| "handed_refs ev = []"

fun fit_inputs :: "('h, 'm) event \<Rightarrow> pyval option list" where
  "fit_inputs (Fit m r cbs kw) = [map_of kw ''x'']"
| "fit_inputs ev = []"

text \<open>
  Collaborators, a world and keyword arguments to run the tuner on: the base search
  adds a callback of its own to the list it is handed, the oracle's best trial has
  hyperparameters 42, building gives model 43, fitting gives model 143, and the base
  search's own best model is 5. The world holds one list, with one callback that is
  no early stopping (\<open>example_world\<close>) or with an early-stopping callback
  (\<open>stopping_world\<close>).
\<close>

definition example_collab :: "(nat, nat) collab" where
  "example_collab =
     \<lparr>base_search = (\<lambda>cbs kw. (cbs @ [OtherCallback 99], None)),
      get_best_trials = (\<lambda>n. Inr [\<lparr>trial_id = 3, hyperparameters = 42\<rparr>]),
      build = (\<lambda>hp. Inr (Suc hp)),
      fit = (\<lambda>m cbs kw. (cbs @ [OtherCallback 98], Inr (m + 100))),
      get_best_models = Inr [5],
      save_weights = (\<lambda>m path. None)\<rparr>"

definition example_world :: "(nat, nat) world" where
  "example_world = \<lparr>store = [0 \<mapsto> [OtherCallback 7]], next_ref = 1, trace = []\<rparr>"


definition example_kwargs :: kwargs where
  "example_kwargs =
     [(''x'', Dataset [1, 2, 3]), (''validation_data'', Dataset [4]), (''epochs'', IntVal 5)]"


definition large_kwargs :: kwargs where
  "large_kwargs =
     [(''x'', Dataset (replicate 100 0)), (''validation_data'', Dataset (replicate 20 1))]"

section \<open>Properties of the registry\<close>

lemma map_of_TUNER_CLASSES_None:
  "s \<notin> set (map fst TUNER_CLASSES) \<Longrightarrow> map_of TUNER_CLASSES s = None"
  by (simp add: map_of_eq_None_iff)

text \<open>
  C6, as the claim states it, fails: the message of the error raised for the string
  \<^verbatim>\<open>nonexistent\<close> does not contain the valid name \<^verbatim>\<open>image_classifier\<close>.
\<close>

theorem message_omits_names_counterexample:
  \<open>get_tuner_class (Str ''nonexistent'') =
     Inl (ValueError (invalid_tuner_message (Str ''nonexistent'')))
   \<and> \<not> sublist ''image_classifier'' (invalid_tuner_message (Str ''nonexistent''))\<close>
proof
  show "get_tuner_class (Str ''nonexistent'') =
     Inl (ValueError (invalid_tuner_message (Str ''nonexistent'')))"
    by (simp add: TUNER_CLASSES_def)
  show "\<not> sublist ''image_classifier'' (invalid_tuner_message (Str ''nonexistent''))"
    unfolding invalid_tuner_message_def by code_simp
qed

text \<open>
  C6, amended: \<^verbatim>\<open>get_tuner_class\<close> returns the registered class for each of the ten
  names, and for every string \<open>s\<close> that is none of them it raises a \<^verbatim>\<open>ValueError\<close>
  whose message is
  \<^verbatim>\<open>The value s passed for argument tuner is invalid, expected one of "greedy", "random", "hyperband", "bayesian".\<close>:
  it names the rejected value and four of the ten names.
\<close>

theorem get_tuner_class_registry:
  \<open>map (\<lambda>s. get_tuner_class (Str s))
     [''bayesian'', ''random'', ''hyperband'', ''greedy'', ''image_classifier'',
      ''image_regressor'', ''text_classifier'', ''text_regressor'',
      ''structured_data_classifier'', ''structured_data_regressor'']
   = map Inr
     [BayesianOptimization, RandomSearch, Hyperband, Greedy, ImageClassifierTuner,
      Greedy, Greedy, Greedy, Greedy, Greedy]
   \<and> (s \<notin> {''bayesian'', ''random'', ''hyperband'', ''greedy'', ''image_classifier'',
      ''image_regressor'', ''text_classifier'', ''text_regressor'',
      ''structured_data_classifier'', ''structured_data_regressor''} \<longrightarrow>
      get_tuner_class (Str s) =
        Inl (ValueError (''The value '' @ s @
          '' passed for argument tuner is invalid, expected one of "greedy", "random", "hyperband", "bayesian".'')))\<close>
proof (intro conjI impI)
  show "map (\<lambda>s. get_tuner_class (Str s))
     [''bayesian'', ''random'', ''hyperband'', ''greedy'', ''image_classifier'',
      ''image_regressor'', ''text_classifier'', ''text_regressor'',
      ''structured_data_classifier'', ''structured_data_regressor'']
   = map Inr
     [BayesianOptimization, RandomSearch, Hyperband, Greedy, ImageClassifierTuner,
      Greedy, Greedy, Greedy, Greedy, Greedy]"
    by (simp add: TUNER_CLASSES_def)
next
  assume "s \<notin> {''bayesian'', ''random'', ''hyperband'', ''greedy'', ''image_classifier'',
      ''image_regressor'', ''text_classifier'', ''text_regressor'',
      ''structured_data_classifier'', ''structured_data_regressor''}"
  then have "s \<notin> set (map fst TUNER_CLASSES)"
    by (simp add: TUNER_CLASSES_def)
  then have "map_of TUNER_CLASSES s = None"
    by (rule map_of_TUNER_CLASSES_None)
  then show \<open>get_tuner_class (Str s) =
        Inl (ValueError (''The value '' @ s @
          '' passed for argument tuner is invalid, expected one of "greedy", "random", "hyperband", "bayesian".''))\<close>
    by (simp add: invalid_tuner_message_def)
qed

theorem get_tuner_class_registry_witness:
  \<open>get_tuner_class (Str ''nonexistent'') =
     Inl (ValueError ''The value nonexistent passed for argument tuner is invalid, expected one of "greedy", "random", "hyperband", "bayesian".'')\<close>
  using get_tuner_class_registry [of "''nonexistent''"] by simp

text \<open>
  C10: an argument that is no string (a class, even one of the registry, or
  \<^verbatim>\<open>None\<close>) raises the \<^verbatim>\<open>ValueError\<close>; a class is returned only for a string that
  is a key of the registry, and then it is the class registered under that key.
\<close>

theorem get_tuner_class_non_string:
  "get_tuner_class (Cls c) = Inl (ValueError (invalid_tuner_message (Cls c)))
   \<and> get_tuner_class NoneArg = Inl (ValueError (invalid_tuner_message NoneArg))
   \<and> (get_tuner_class tuner = Inr c' \<longleftrightarrow>
        (\<exists>s. tuner = Str s \<and> map_of TUNER_CLASSES s = Some c'))"
  by (cases tuner) (auto split: option.splits)

theorem get_tuner_class_non_string_witness:
  \<open>get_tuner_class (Cls Greedy) =
     Inl (ValueError ''The value <class 'autokeras.tuner.Greedy'> passed for argument tuner is invalid, expected one of "greedy", "random", "hyperband", "bayesian".'')
   \<and> get_tuner_class (Str ''greedy'') = Inr Greedy\<close>
  using get_tuner_class_non_string [of Greedy "Str ''greedy''" Greedy]
  by (simp add: invalid_tuner_message_def TUNER_CLASSES_def)

section \<open>Properties of the best-model path\<close>



section \<open>The phases of search\<close>

lemma inject_fresh:
  "caller_list w callbacks = [] \<Longrightarrow>
   inject_early_stopping callbacks w =
     (next_ref w, Suc (next_ref w),
      w\<lparr>store := (store w)(next_ref w \<mapsto> [], Suc (next_ref w) \<mapsto> [EarlyStopping 10]),
        next_ref := Suc (Suc (next_ref w))\<rparr>)"
  by (cases callbacks)
     (simp_all add: inject_early_stopping_def alloc_def deepcopy_callbacks_def deref_def
        any_early_stopping_def assign_def)

lemma inject_given:
  "deref w a \<noteq> [] \<Longrightarrow>
   inject_early_stopping (Some a) w =
     (a, next_ref w,
      w\<lparr>store := (store w)(next_ref w \<mapsto>
           (if list_ex is_early_stopping (deref w a) then deref w a
            else deref w a @ [EarlyStopping 10])),
        next_ref := Suc (next_ref w)\<rparr>)"
  by (auto simp add: inject_early_stopping_def alloc_def deepcopy_callbacks_def deref_def
        any_early_stopping_def assign_def split: option.splits)

lemma super_search_eq:
  "super_search c r kw w =
     (snd (base_search c (deref w r) kw),
      w\<lparr>store := (store w)(r \<mapsto> fst (base_search c (deref w r) kw)),
        trace := trace w @ [BaseSearch r (deref w r) kw]\<rparr>)"
  by (simp add: super_search_def assign_def record_call_def Let_def split: prod.splits)

lemma tracked_best_model_world:
  "snd (tracked_best_model c w) = w\<lparr>trace := trace w @ [GetBestModels]\<rparr>"
  by (simp add: tracked_best_model_def record_call_def Let_def split: sum.splits list.splits)


lemma concatenate_validation_data_ok:
  "map_of kw ''x'' = Some (Dataset xs) \<Longrightarrow> map_of kw ''validation_data'' = Some (Dataset vs) \<Longrightarrow>
   concatenate_validation_data kw = Inr (AList.update ''x'' (Dataset (xs @ vs)) kw)"
  by (simp add: concatenate_validation_data_def getitem_def)

lemma concatenate_validation_data_missing:
  "map_of kw ''validation_data'' = None \<Longrightarrow> \<exists>e. concatenate_validation_data kw = Inl e"
  by (simp add: concatenate_validation_data_def getitem_def split: option.splits sum.splits)

lemma concatenate_validation_data_KeyError:
  "map_of kw ''x'' = Some (Dataset xs) \<Longrightarrow> map_of kw ''validation_data'' = None \<Longrightarrow>
   concatenate_validation_data kw = Inl (KeyError ''validation_data'')"
  by (simp add: concatenate_validation_data_def getitem_def)

lemma full_retrain_store:
  "r \<noteq> next_ref w \<Longrightarrow> store (snd (full_retrain c cb f kw w)) r = store w r"
  by (simp add: full_retrain_def Let_def alloc_def deepcopy_callbacks_def record_call_def
        assign_def split: sum.splits list.splits prod.splits)

lemma full_retrain_next_ref:
  "next_ref w \<le> next_ref (snd (full_retrain c cb f kw w))"
  by (simp add: full_retrain_def Let_def alloc_def deepcopy_callbacks_def record_call_def
        assign_def split: sum.splits list.splits prod.splits)

lemma full_retrain_trace:
  "\<exists>evs. trace (snd (full_retrain c cb f kw w)) = trace w @ GetBestTrials 1 # evs
     \<and> (evs = [] \<or> (\<exists>hp. evs = [Build hp])
        \<or> (\<exists>hp m kw'. evs = [Build hp, Fit m (next_ref w) (deref w cb) kw']
              \<and> (if f then concatenate_validation_data
                             (AList.update ''callbacks'' (ListRef (next_ref w)) kw) = Inr kw'
                  else kw' = AList.update ''callbacks'' (ListRef (next_ref w)) kw)))
     \<and> (\<forall>m'. fst (full_retrain c cb f kw w) = Inr m' \<longrightarrow>
           (\<exists>hp m kw'. evs = [Build hp, Fit m (next_ref w) (deref w cb) kw']))"
  by (auto simp add: full_retrain_def Let_def alloc_def deepcopy_callbacks_def record_call_def
        assign_def deref_def split: sum.splits list.splits prod.splits)


lemma inject_props:
  assumes "valid_callbacks w callbacks"
  shows "\<exists>cb ncb w1. inject_early_stopping callbacks w = (cb, ncb, w1)
     \<and> deref w1 cb = caller_list w callbacks
     \<and> deref w1 ncb = working_list (caller_list w callbacks)
     \<and> cb \<noteq> ncb \<and> next_ref w \<le> ncb \<and> ncb < next_ref w1 \<and> cb < next_ref w1
     \<and> trace w1 = trace w
     \<and> (\<forall>r<next_ref w. store w1 r = store w r)"
proof (cases "caller_list w callbacks = []")
  case True
  then show ?thesis
    by (simp add: inject_fresh deref_def working_list_def)
next
  case False
  then obtain a where a: "callbacks = Some a" "deref w a \<noteq> []"
    by (cases callbacks) auto
  with assms have "a < next_ref w" by simp
  with a show ?thesis
    by (simp add: inject_given deref_def working_list_def)
qed

lemma search_after_base_search:
  assumes "\<not> finished self" and "valid_callbacks w callbacks"
  shows "\<exists>cb ncb w2.
     search c callbacks f kw self w =
       (case snd (base_search c (working_list (caller_list w callbacks)) kw) of
          Some e \<Rightarrow> (Some e, self, w2)
        | None \<Rightarrow>
            (case (if \<not> list_ex is_early_stopping (caller_list w callbacks) \<or> f
                   then full_retrain c cb f kw w2 else tracked_best_model c w2) of
               (Inl e, w3) \<Rightarrow> (Some e, self, w3)
             | (Inr model, w3) \<Rightarrow>
                 (let w4 = record_call (SaveWeights model (best_model_path self)) w3 in
                  case save_weights c model (best_model_path self) of
                    Some e \<Rightarrow> (Some e, self, w4)
                  | None \<Rightarrow> (None, self\<lparr>finished := True\<rparr>, w4))))
     \<and> trace w2 = trace w @ [BaseSearch ncb (working_list (caller_list w callbacks)) kw]
     \<and> deref w2 cb = caller_list w callbacks
     \<and> cb \<noteq> ncb \<and> next_ref w \<le> ncb \<and> ncb < next_ref w2 \<and> cb < next_ref w2
     \<and> (\<forall>r<next_ref w. store w2 r = store w r)"
proof -
  from inject_props [OF assms(2)] obtain cb ncb w1 where
    inj: "inject_early_stopping callbacks w = (cb, ncb, w1)"
    and p: "deref w1 cb = caller_list w callbacks"
      "deref w1 ncb = working_list (caller_list w callbacks)"
      "cb \<noteq> ncb" "next_ref w \<le> ncb" "ncb < next_ref w1" "cb < next_ref w1"
      "trace w1 = trace w" "\<forall>r<next_ref w. store w1 r = store w r"
    by blast
  define w2 where "w2 = snd (super_search c ncb kw w1)"
  have ss: "super_search c ncb kw w1 =
      (snd (base_search c (working_list (caller_list w callbacks)) kw), w2)"
    by (simp add: w2_def super_search_eq p)
  have w2: "trace w2 = trace w @ [BaseSearch ncb (working_list (caller_list w callbacks)) kw]"
    "next_ref w2 = next_ref w1" "\<And>r. r \<noteq> ncb \<Longrightarrow> store w2 r = store w1 r"
    by (simp_all add: w2_def super_search_eq p)
  have d: "deref w2 cb = caller_list w callbacks"
    using p(1) p(3) w2(3) [of cb] by (simp add: deref_def)
  have fr: "\<forall>r<next_ref w. store w2 r = store w r"
    using p(4) p(8) w2(3) by auto
  have "search c callbacks f kw self w =
       (case snd (base_search c (working_list (caller_list w callbacks)) kw) of
          Some e \<Rightarrow> (Some e, self, w2)
        | None \<Rightarrow>
            (case (if \<not> list_ex is_early_stopping (caller_list w callbacks) \<or> f
                   then full_retrain c cb f kw w2 else tracked_best_model c w2) of
               (Inl e, w3) \<Rightarrow> (Some e, self, w3)
             | (Inr model, w3) \<Rightarrow>
                 (let w4 = record_call (SaveWeights model (best_model_path self)) w3 in
                  case save_weights c model (best_model_path self) of
                    Some e \<Rightarrow> (Some e, self, w4)
                  | None \<Rightarrow> (None, self\<lparr>finished := True\<rparr>, w4))))"
    using assms(1)
    by (simp add: search_def inj ss any_early_stopping_def d) blast
  with w2 d fr p show ?thesis
    by (intro exI [of _ cb] exI [of _ ncb] exI [of _ w2]) simp
qed


lemma search_base_search_raises:
  assumes "\<not> finished self" and "valid_callbacks w callbacks"
    and "snd (base_search c (working_list (caller_list w callbacks)) kw) = Some e"
  shows "\<exists>ncb\<ge>next_ref w.
     new_events w (snd (snd (search c callbacks f kw self w))) =
       [BaseSearch ncb (working_list (caller_list w callbacks)) kw]
     \<and> fst (search c callbacks f kw self w) = Some e
     \<and> fst (snd (search c callbacks f kw self w)) = self"
proof -
  from search_after_base_search [OF assms(1,2), of c f kw] obtain cb ncb w2 where
    eq: "search c callbacks f kw self w = (Some e, self, w2)"
    and tr: "trace w2 = trace w @ [BaseSearch ncb (working_list (caller_list w callbacks)) kw]"
    and n: "next_ref w \<le> ncb"
    using assms(3) by auto
  show ?thesis
    using n by (intro exI [of _ ncb]) (simp add: eq tr new_events_def)
qed

lemma search_tracked:
  assumes "\<not> finished self" and "valid_callbacks w callbacks"
    and "snd (base_search c (working_list (caller_list w callbacks)) kw) = None"
    and "list_ex is_early_stopping (caller_list w callbacks)" and "\<not> f"
  shows "\<exists>ncb\<ge>next_ref w.
     (case get_best_models c of
        Inr (m # ms) \<Rightarrow>
          new_events w (snd (snd (search c callbacks f kw self w))) =
            [BaseSearch ncb (working_list (caller_list w callbacks)) kw, GetBestModels,
             SaveWeights m (best_model_path self)]
          \<and> fst (search c callbacks f kw self w) = save_weights c m (best_model_path self)
      | _ \<Rightarrow>
          new_events w (snd (snd (search c callbacks f kw self w))) =
            [BaseSearch ncb (working_list (caller_list w callbacks)) kw, GetBestModels]
          \<and> fst (search c callbacks f kw self w) \<noteq> None)"
proof -
  from search_after_base_search [OF assms(1,2), of c f kw] obtain cb ncb w2 where
    eq: "search c callbacks f kw self w =
      (case tracked_best_model c w2 of
         (Inl e, w3) \<Rightarrow> (Some e, self, w3)
       | (Inr model, w3) \<Rightarrow>
           (let w4 = record_call (SaveWeights model (best_model_path self)) w3 in
            case save_weights c model (best_model_path self) of
              Some e \<Rightarrow> (Some e, self, w4)
            | None \<Rightarrow> (None, self\<lparr>finished := True\<rparr>, w4)))"
    and tr: "trace w2 = trace w @ [BaseSearch ncb (working_list (caller_list w callbacks)) kw]"
    and n: "next_ref w \<le> ncb"
    using assms(3,4,5) by auto
  show ?thesis
    using n
    by (intro exI [of _ ncb])
       (simp add: eq tr new_events_def tracked_best_model_def record_call_def Let_def
          split: sum.splits list.splits option.splits)
qed


lemma search_retrain:
  assumes "\<not> finished self" and "valid_callbacks w callbacks"
    and "snd (base_search c (working_list (caller_list w callbacks)) kw) = None"
    and "\<not> list_ex is_early_stopping (caller_list w callbacks) \<or> f"
  shows "\<exists>ncb\<ge>next_ref w. \<exists>evs.
     new_events w (snd (snd (search c callbacks f kw self w))) =
       BaseSearch ncb (working_list (caller_list w callbacks)) kw # GetBestTrials 1 # evs
     \<and> (evs = [] \<or> (\<exists>hp. evs = [Build hp])
        \<or> (\<exists>hp m r kw' rest.
              evs = Build hp # Fit m r (caller_list w callbacks) kw' # rest \<and> ncb < r
              \<and> (rest = [] \<or> (\<exists>m'. rest = [SaveWeights m' (best_model_path self)]))
              \<and> (if f then concatenate_validation_data
                             (AList.update ''callbacks'' (ListRef r) kw) = Inr kw'
                  else kw' = AList.update ''callbacks'' (ListRef r) kw)))
     \<and> (fst (search c callbacks f kw self w) = None \<longrightarrow>
          (\<exists>hp m r kw' m'.
              evs = [Build hp, Fit m r (caller_list w callbacks) kw',
                     SaveWeights m' (best_model_path self)]))"
proof -
  from search_after_base_search [OF assms(1,2), of c f kw] obtain cb ncb w2 where
    eq: "search c callbacks f kw self w =
      (case full_retrain c cb f kw w2 of
         (Inl e, w3) \<Rightarrow> (Some e, self, w3)
       | (Inr model, w3) \<Rightarrow>
           (let w4 = record_call (SaveWeights model (best_model_path self)) w3 in
            case save_weights c model (best_model_path self) of
              Some e \<Rightarrow> (Some e, self, w4)
            | None \<Rightarrow> (None, self\<lparr>finished := True\<rparr>, w4)))"
    and tr: "trace w2 = trace w @ [BaseSearch ncb (working_list (caller_list w callbacks)) kw]"
    and d: "deref w2 cb = caller_list w callbacks"
    and n: "next_ref w \<le> ncb" "ncb < next_ref w2"
    using assms(3,4) by auto
  from full_retrain_trace [of c cb f kw w2] obtain evs0 where
    tr3: "trace (snd (full_retrain c cb f kw w2)) = trace w2 @ GetBestTrials 1 # evs0"
    and shape: "evs0 = [] \<or> (\<exists>hp. evs0 = [Build hp])
        \<or> (\<exists>hp m kw'. evs0 = [Build hp, Fit m (next_ref w2) (deref w2 cb) kw']
              \<and> (if f then concatenate_validation_data
                             (AList.update ''callbacks'' (ListRef (next_ref w2)) kw) = Inr kw'
                  else kw' = AList.update ''callbacks'' (ListRef (next_ref w2)) kw))"
    and full: "\<forall>m'. fst (full_retrain c cb f kw w2) = Inr m' \<longrightarrow>
           (\<exists>hp m kw'. evs0 = [Build hp, Fit m (next_ref w2) (deref w2 cb) kw'])"
    by (elim exE conjE) (rule that)
  obtain r3 w3 where fr: "full_retrain c cb f kw w2 = (r3, w3)"
    by (cases "full_retrain c cb f kw w2")
  show ?thesis
  proof (cases r3)
    case (Inl e)
    then have res: "search c callbacks f kw self w = (Some e, self, w3)"
      by (simp add: eq fr)
    have ev: "new_events w w3 =
        BaseSearch ncb (working_list (caller_list w callbacks)) kw # GetBestTrials 1 # evs0"
      using tr3 by (simp add: fr tr new_events_def)
    from shape consider (a) "evs0 = []" | (b) hp where "evs0 = [Build hp]"
      | (c) hp m kw' where "evs0 = [Build hp, Fit m (next_ref w2) (deref w2 cb) kw']"
          "if f then concatenate_validation_data
                             (AList.update ''callbacks'' (ListRef (next_ref w2)) kw) = Inr kw'
                  else kw' = AList.update ''callbacks'' (ListRef (next_ref w2)) kw"
      by blast
    then have shape': "evs0 = [] \<or> (\<exists>hp. evs0 = [Build hp])
        \<or> (\<exists>hp m r kw' rest.
              evs0 = Build hp # Fit m r (caller_list w callbacks) kw' # rest \<and> ncb < r
              \<and> (rest = [] \<or> (\<exists>m'. rest = [SaveWeights m' (best_model_path self)]))
              \<and> (if f then concatenate_validation_data
                             (AList.update ''callbacks'' (ListRef r) kw) = Inr kw'
                  else kw' = AList.update ''callbacks'' (ListRef r) kw))"
    proof cases
      case a
      then show ?thesis by simp
    next
      case b
      then show ?thesis by simp
    next
      case c
      then show ?thesis
        using n d
        by (intro disjI2 exI [of _ hp] exI [of _ m] exI [of _ "next_ref w2"]
              exI [of _ kw'] exI [of _ "[]"]) simp
    qed
    with ev n show ?thesis
      by (intro exI [of _ ncb] conjI exI [of _ evs0]) (simp_all add: res)
  next
    case (Inr model)
    with full fr obtain hp m kw' where
      e0: "evs0 = [Build hp, Fit m (next_ref w2) (deref w2 cb) kw']"
      by auto
    with shape have kw': "if f then concatenate_validation_data
                             (AList.update ''callbacks'' (ListRef (next_ref w2)) kw) = Inr kw'
                  else kw' = AList.update ''callbacks'' (ListRef (next_ref w2)) kw"
      by auto
    have w': "snd (snd (search c callbacks f kw self w)) =
        record_call (SaveWeights model (best_model_path self)) w3"
      by (simp add: eq fr Inr Let_def split: option.splits)
    have ev: "new_events w (record_call (SaveWeights model (best_model_path self)) w3) =
        BaseSearch ncb (working_list (caller_list w callbacks)) kw # GetBestTrials 1 #
        [Build hp, Fit m (next_ref w2) (caller_list w callbacks) kw',
         SaveWeights model (best_model_path self)]"
      using tr3 by (simp add: fr tr new_events_def record_call_def e0 d)
    have shape': "\<exists>hp' m' r kw'' rest.
              [Build hp, Fit m (next_ref w2) (caller_list w callbacks) kw',
               SaveWeights model (best_model_path self)]
                = Build hp' # Fit m' r (caller_list w callbacks) kw'' # rest \<and> ncb < r
              \<and> (rest = [] \<or> (\<exists>m'. rest = [SaveWeights m' (best_model_path self)]))
              \<and> (if f then concatenate_validation_data
                             (AList.update ''callbacks'' (ListRef r) kw) = Inr kw''
                  else kw'' = AList.update ''callbacks'' (ListRef r) kw)"
      using n kw'
      by (intro exI [of _ hp] exI [of _ m] exI [of _ "next_ref w2"] exI [of _ kw']
            exI [of _ "[SaveWeights model (best_model_path self)]"]) simp
    from ev n shape' show ?thesis
      by (intro exI [of _ ncb] conjI
            exI [of _ "[Build hp, Fit m (next_ref w2) (caller_list w callbacks) kw',
               SaveWeights model (best_model_path self)]"])
         (simp_all add: w')
  qed
qed

lemma search_finished: "finished self \<Longrightarrow> search c callbacks f kw self w = (None, self, w)"
  by (simp add: search_def)

lemma search_tuner:
  "fst (snd (search c callbacks f kw self w)) =
     (if finished self \<or> fst (search c callbacks f kw self w) \<noteq> None then self
      else self\<lparr>finished := True\<rparr>)"
  by (simp add: search_def Let_def split: prod.split option.split sum.split)

lemma search_completed_finished:
  "fst (search c callbacks f kw self w) = None \<Longrightarrow>
   finished (fst (snd (search c callbacks f kw self w)))"
  by (simp add: search_tuner)

section \<open>The finished flag\<close>

text \<open>
  C2: the finished flag is false after construction; a call of \<^verbatim>\<open>search\<close> that
  completes (raises nothing) leaves it true, and any later call on that tuner, with
  whatever arguments and collaborators, returns at once: it raises nothing and leaves
  the tuner and the world (the store and the calls made: no base search, no retrain, no
  second write of the weights) as they were. The only assignment to the flag besides
  the constructor's sets it to true, so a flag that is true stays true.
\<close>

theorem search_idempotent:
  "\<not> finished (AutoTuner_init dir)
   \<and> (fst (search c callbacks f kw self w) = None \<longrightarrow>
        finished (fst (snd (search c callbacks f kw self w)))
        \<and> search c' callbacks' f' kw' (fst (snd (search c callbacks f kw self w)))
              (snd (snd (search c callbacks f kw self w)))
            = (None, fst (snd (search c callbacks f kw self w)),
               snd (snd (search c callbacks f kw self w))))
   \<and> (finished self \<longrightarrow> search c callbacks f kw self w = (None, self, w))"
proof (intro conjI impI)
  show "\<not> finished (AutoTuner_init dir)"
    by (simp add: AutoTuner_init_def)
next
  assume "fst (search c callbacks f kw self w) = None"
  then show fin: "finished (fst (snd (search c callbacks f kw self w)))"
    by (rule search_completed_finished)
  then show "search c' callbacks' f' kw' (fst (snd (search c callbacks f kw self w)))
              (snd (snd (search c callbacks f kw self w)))
            = (None, fst (snd (search c callbacks f kw self w)),
               snd (snd (search c callbacks f kw self w)))"
    by (rule search_finished)
next
  assume "finished self"
  then show "search c callbacks f kw self w = (None, self, w)"
    by (rule search_finished)
qed

lemma example_search_completes:
  "fst (search example_collab (Some 0) False example_kwargs (AutoTuner_init ''/tmp/proj'')
     example_world) = None"
  by (simp add: search_def inject_early_stopping_def super_search_def full_retrain_def
        tracked_best_model_def alloc_def assign_def record_call_def deepcopy_callbacks_def
        deref_def any_early_stopping_def example_collab_def example_world_def
        example_kwargs_def AutoTuner_init_def Let_def)

lemma example_search_trace:
  "trace (snd (snd (search example_collab (Some 0) False example_kwargs (AutoTuner_init ''/tmp/proj'')
     example_world))) = 
   [BaseSearch 1 [OtherCallback 7, EarlyStopping 10] example_kwargs, GetBestTrials 1, Build 42,
    Fit 43 2 [OtherCallback 7] (example_kwargs @ [(''callbacks'', ListRef 2)]),
    SaveWeights 143 ''/tmp/proj/best_model'']"
  by (simp add: search_def inject_early_stopping_def super_search_def full_retrain_def
        tracked_best_model_def alloc_def assign_def record_call_def deepcopy_callbacks_def
        deref_def any_early_stopping_def example_collab_def example_world_def
        example_kwargs_def AutoTuner_init_def Let_def best_model_path_def)


theorem search_idempotent_witness:
  "finished (fst (snd (search example_collab (Some 0) False example_kwargs
      (AutoTuner_init ''/tmp/proj'') example_world)))
   \<and> search example_collab None True []
       (fst (snd (search example_collab (Some 0) False example_kwargs
          (AutoTuner_init ''/tmp/proj'') example_world)))
       (snd (snd (search example_collab (Some 0) False example_kwargs
          (AutoTuner_init ''/tmp/proj'') example_world)))
     = (None,
        fst (snd (search example_collab (Some 0) False example_kwargs
          (AutoTuner_init ''/tmp/proj'') example_world)),
        snd (snd (search example_collab (Some 0) False example_kwargs
          (AutoTuner_init ''/tmp/proj'') example_world)))"
  using search_idempotent [of "''/tmp/proj''" example_collab "Some 0" False example_kwargs
      "AutoTuner_init ''/tmp/proj''" example_world example_collab None True "[]"]
    example_search_completes
  by blast

section \<open>The calls that search makes\<close>

lemma tracked_best_model_store:
  "store (snd (tracked_best_model c w)) = store w"
  by (simp add: tracked_best_model_world)

lemma search_store_frame:
  assumes "valid_callbacks w callbacks" and "r < next_ref w"
  shows "store (snd (snd (search c callbacks f kw self w))) r = store w r"
proof (cases "finished self")
  case True
  then show ?thesis by (simp add: search_finished)
next
  case False
  from search_after_base_search [OF False assms(1), of c f kw] obtain cb ncb w2 where
    eq: "search c callbacks f kw self w =
       (case snd (base_search c (working_list (caller_list w callbacks)) kw) of
          Some e \<Rightarrow> (Some e, self, w2)
        | None \<Rightarrow>
            (case (if \<not> list_ex is_early_stopping (caller_list w callbacks) \<or> f
                   then full_retrain c cb f kw w2 else tracked_best_model c w2) of
               (Inl e, w3) \<Rightarrow> (Some e, self, w3)
             | (Inr model, w3) \<Rightarrow>
                 (let w4 = record_call (SaveWeights model (best_model_path self)) w3 in
                  case save_weights c model (best_model_path self) of
                    Some e \<Rightarrow> (Some e, self, w4)
                  | None \<Rightarrow> (None, self\<lparr>finished := True\<rparr>, w4))))"
    and n: "next_ref w \<le> ncb" "ncb < next_ref w2"
    and fr: "\<forall>r<next_ref w. store w2 r = store w r"
    by blast
  from assms(2) n have r: "r \<noteq> next_ref w2" by simp
  define br where "br = (if \<not> list_ex is_early_stopping (caller_list w callbacks) \<or> f
                   then full_retrain c cb f kw w2 else tracked_best_model c w2)"
  have a: "store (snd (full_retrain c cb f kw w2)) r = store w r"
    using full_retrain_store [OF r] fr assms(2) by simp
  have b: "store (snd (tracked_best_model c w2)) r = store w r"
    using fr assms(2) by (simp add: tracked_best_model_store)
  have br: "store (snd br) r = store w r"
    using a b by (simp add: br_def)
  have c: "\<And>ev w3. store (record_call ev w3) = store w3"
    by (simp add: record_call_def)
  show ?thesis
    using br fr assms(2) unfolding eq br_def [symmetric]
    by (cases br) (simp add: c Let_def split: option.split sum.split)
qed


lemma new_events_same [simp]: "new_events w w = []"
  by (simp add: new_events_def)

lemma search_tracked_events:
  assumes "\<not> finished self" and "valid_callbacks w callbacks"
    and "snd (base_search c (working_list (caller_list w callbacks)) kw) = None"
    and "list_ex is_early_stopping (caller_list w callbacks)" and "\<not> f"
  shows "\<exists>ncb\<ge>next_ref w. \<exists>rest.
     new_events w (snd (snd (search c callbacks f kw self w))) =
       BaseSearch ncb (working_list (caller_list w callbacks)) kw # GetBestModels # rest
     \<and> (rest = [] \<or> (\<exists>m ms. get_best_models c = Inr (m # ms)
                         \<and> rest = [SaveWeights m (best_model_path self)]))
     \<and> (fst (search c callbacks f kw self w) = None \<longrightarrow>
          (\<exists>m ms. get_best_models c = Inr (m # ms)
             \<and> rest = [SaveWeights m (best_model_path self)]))"
proof -
  from search_tracked [OF assms] obtain ncb where n: "next_ref w \<le> ncb"
    and t: "case get_best_models c of
        Inr (m # ms) \<Rightarrow>
          new_events w (snd (snd (search c callbacks f kw self w))) =
            [BaseSearch ncb (working_list (caller_list w callbacks)) kw, GetBestModels,
             SaveWeights m (best_model_path self)]
          \<and> fst (search c callbacks f kw self w) = save_weights c m (best_model_path self)
      | _ \<Rightarrow>
          new_events w (snd (snd (search c callbacks f kw self w))) =
            [BaseSearch ncb (working_list (caller_list w callbacks)) kw, GetBestModels]
          \<and> fst (search c callbacks f kw self w) \<noteq> None"
    by blast
  show ?thesis
  proof (cases "get_best_models c")
    case (Inl e)
    with t n show ?thesis
      by (intro exI [of _ ncb] conjI exI [of _ "[]"]) simp_all
  next
    case (Inr ms)
    show ?thesis
    proof (cases ms)
      case Nil
      with t n Inr show ?thesis
        by (intro exI [of _ ncb] conjI exI [of _ "[]"]) simp_all
    next
      case (Cons m ms')
      with t n Inr show ?thesis
        by (intro exI [of _ ncb] conjI exI [of _ "[SaveWeights m (best_model_path self)]"])
           simp_all
    qed
  qed
qed

text \<open>
  C4: in a call on a tuner that is not finished, the base search is called once, with
  a list that holds the callbacks of the caller's list followed by one early-stopping
  callback of patience 10 when the caller's list has no early-stopping callback, and
  the callbacks of the caller's list and nothing else when it has one. Every fit of the
  retrain is handed exactly the callbacks of the caller's list, and when the call
  completes on the retrain branch there is one such fit.
\<close>

theorem early_stopping_injected:
  assumes "\<not> finished self" and "valid_callbacks w callbacks"
  shows "concat (map base_search_callbacks
           (new_events w (snd (snd (search c callbacks f kw self w)))))
         = [if list_ex is_early_stopping (caller_list w callbacks)
            then caller_list w callbacks
            else caller_list w callbacks @ [EarlyStopping 10]]
     \<and> (\<forall>cbs \<in> set (concat (map fit_callbacks
            (new_events w (snd (snd (search c callbacks f kw self w)))))).
          cbs = caller_list w callbacks)
     \<and> (fst (search c callbacks f kw self w) = None
          \<and> (\<not> list_ex is_early_stopping (caller_list w callbacks) \<or> f) \<longrightarrow>
        concat (map fit_callbacks
           (new_events w (snd (snd (search c callbacks f kw self w)))))
         = [caller_list w callbacks])"
proof (cases "snd (base_search c (working_list (caller_list w callbacks)) kw)")
  case (Some e)
  from search_base_search_raises [OF assms Some, of f]
  show ?thesis by (auto simp add: working_list_def)
next
  case None
  show ?thesis
  proof (cases "\<not> list_ex is_early_stopping (caller_list w callbacks) \<or> f")
    case True
    from search_retrain [OF assms None True]
    show ?thesis by (auto simp add: working_list_def)
  next
    case False
    then have nc: "list_ex is_early_stopping (caller_list w callbacks)" "\<not> f" by simp_all
    from search_tracked_events [OF assms None nc] nc
    show ?thesis by (auto simp add: working_list_def)
  qed
qed


lemma example_tuner_not_finished: "\<not> finished (AutoTuner_init ''/tmp/proj'')"
  by (simp add: AutoTuner_init_def)

lemma example_world_valid: "valid_callbacks example_world (Some 0)"
  by (simp add: example_world_def)

lemma example_world_deref: "deref example_world 0 = [OtherCallback 7]"
  by (simp add: example_world_def deref_def)

theorem early_stopping_injected_witness:
  "concat (map base_search_callbacks
      (new_events example_world (snd (snd (search example_collab (Some 0) False example_kwargs
          (AutoTuner_init ''/tmp/proj'') example_world)))))
     = [[OtherCallback 7, EarlyStopping 10]]
   \<and> concat (map fit_callbacks
      (new_events example_world (snd (snd (search example_collab (Some 0) False example_kwargs
          (AutoTuner_init ''/tmp/proj'') example_world)))))
     = [[OtherCallback 7]]"
  using early_stopping_injected [OF example_tuner_not_finished example_world_valid,
      of example_collab False example_kwargs] example_search_completes
  by (simp add: example_world_deref)

section \<open>The retrain decision\<close>



lemma example_collab_base_search_returns:
  "snd (base_search example_collab cbs kw) = None"
  by (simp add: example_collab_def)




section \<open>The caller's list\<close>

text \<open>
  C3: the list that the caller passes holds after the call what it held before, whatever
  the collaborators do to the lists they are handed: the base search and the fit are
  each handed a list of their own, neither of them the caller's.
\<close>

theorem caller_list_not_mutated:
  assumes "a < next_ref w"
  shows "store (snd (snd (search c (Some a) f kw self w))) a = store w a
     \<and> deref (snd (snd (search c (Some a) f kw self w))) a = deref w a
     \<and> a \<notin> set (concat (map handed_refs
           (new_events w (snd (snd (search c (Some a) f kw self w))))))
     \<and> distinct (concat (map handed_refs
           (new_events w (snd (snd (search c (Some a) f kw self w))))))"
proof -
  from assms have v: "valid_callbacks w (Some a)" by simp
  have st: "store (snd (snd (search c (Some a) f kw self w))) a = store w a"
    using v assms by (rule search_store_frame)
  then have de: "deref (snd (snd (search c (Some a) f kw self w))) a = deref w a"
    by (simp add: deref_def)
  have "a \<notin> set (concat (map handed_refs
           (new_events w (snd (snd (search c (Some a) f kw self w))))))
     \<and> distinct (concat (map handed_refs
           (new_events w (snd (snd (search c (Some a) f kw self w))))))"
  proof (cases "finished self")
    case True
    then show ?thesis by (simp add: search_finished)
  next
    case nf: False
    show ?thesis
    proof (cases "snd (base_search c (working_list (caller_list w (Some a))) kw)")
      case (Some e)
      from search_base_search_raises [OF nf v Some, of f] assms
      show ?thesis by auto
    next
      case None
      show ?thesis
      proof (cases "\<not> list_ex is_early_stopping (caller_list w (Some a)) \<or> f")
        case True
        from search_retrain [OF nf v None True] assms
        show ?thesis by auto
      next
        case False
        then have nc: "list_ex is_early_stopping (caller_list w (Some a))" "\<not> f"
          by simp_all
        from search_tracked_events [OF nf v None nc] assms
        show ?thesis by auto
      qed
    qed
  qed
  with st de show ?thesis by simp
qed

theorem caller_list_not_mutated_witness:
  "store (snd (snd (search example_collab (Some 0) True example_kwargs
       (AutoTuner_init ''/tmp/proj'') example_world))) 0 = Some [OtherCallback 7]"
  using caller_list_not_mutated [of 0 example_world example_collab True example_kwargs
      "AutoTuner_init ''/tmp/proj''"]
  by (simp add: example_world_def)

section \<open>The default callbacks\<close>





section \<open>Fitting on the validation data\<close>

lemma map_of_update_callbacks:
  "k \<noteq> ''callbacks'' \<Longrightarrow> map_of (AList.update ''callbacks'' v kw) k = map_of kw k"
  by (simp add: update_conv')

text \<open>
  C5: when \<^verbatim>\<open>fit_on_val_data\<close> is true, \<^verbatim>\<open>fit_kwargs\<close> holds a training dataset
  under \<^verbatim>\<open>x\<close> and a validation dataset under \<^verbatim>\<open>validation_data\<close>, and the call
  completes, the one fit of the retrain has as its input \<^verbatim>\<open>x\<close> the training examples
  followed by the validation examples, whose number is the sum of the two sizes (100
  and 20 give 120).
\<close>

theorem fit_on_val_data_concatenates:
  assumes "\<not> finished self" and "valid_callbacks w callbacks"
    and "map_of kw ''x'' = Some (Dataset xs)"
    and "map_of kw ''validation_data'' = Some (Dataset vs)"
    and "fst (search c callbacks True kw self w) = None"
  shows "concat (map fit_inputs
           (new_events w (snd (snd (search c callbacks True kw self w)))))
         = [Some (Dataset (xs @ vs))]
     \<and> dataset_size (Dataset (xs @ vs)) = dataset_size (Dataset xs) + dataset_size (Dataset vs)"
proof -
  have base: "snd (base_search c (working_list (caller_list w callbacks)) kw) = None"
  proof (cases "snd (base_search c (working_list (caller_list w callbacks)) kw)")
    case None
    then show ?thesis .
  next
    case (Some e)
    from search_base_search_raises [OF assms(1,2) Some, of True] assms(5)
    show ?thesis by auto
  qed
  have cond: "\<not> list_ex is_early_stopping (caller_list w callbacks) \<or> True" by simp
  have cv: "\<And>r. concatenate_validation_data (AList.update ''callbacks'' (ListRef r) kw)
      = Inr (AList.update ''x'' (Dataset (xs @ vs))
               (AList.update ''callbacks'' (ListRef r) kw))"
    using assms(3,4)
    by (intro concatenate_validation_data_ok) (simp_all add: map_of_update_callbacks)
  from search_retrain [OF assms(1,2) base cond] assms(5) obtain ncb evs hp m r kw' m' where
    ev: "new_events w (snd (snd (search c callbacks True kw self w))) =
       BaseSearch ncb (working_list (caller_list w callbacks)) kw # GetBestTrials 1 # evs"
    and full: "evs = [Build hp, Fit m r (caller_list w callbacks) kw',
                     SaveWeights m' (best_model_path self)]"
    and shape: "evs = [] \<or> (\<exists>hp. evs = [Build hp])
        \<or> (\<exists>hp m r kw' rest.
              evs = Build hp # Fit m r (caller_list w callbacks) kw' # rest \<and> ncb < r
              \<and> (rest = [] \<or> (\<exists>m'. rest = [SaveWeights m' (best_model_path self)]))
              \<and> (if True then concatenate_validation_data
                             (AList.update ''callbacks'' (ListRef r) kw) = Inr kw'
                  else kw' = AList.update ''callbacks'' (ListRef r) kw))"
    by blast
  from shape full have "concatenate_validation_data
                             (AList.update ''callbacks'' (ListRef r) kw) = Inr kw'"
    by auto
  with cv have "kw' = AList.update ''x'' (Dataset (xs @ vs))
               (AList.update ''callbacks'' (ListRef r) kw)"
    by simp
  then have "map_of kw' ''x'' = Some (Dataset (xs @ vs))"
    by (simp add: update_conv')
  with ev full show ?thesis by simp
qed

lemma large_search_completes:
  "fst (search example_collab (Some 0) True large_kwargs (AutoTuner_init ''/tmp/proj'')
     example_world) = None"
  by (simp add: search_def inject_early_stopping_def super_search_def full_retrain_def
        tracked_best_model_def alloc_def assign_def record_call_def deepcopy_callbacks_def
        deref_def any_early_stopping_def example_collab_def example_world_def
        large_kwargs_def AutoTuner_init_def Let_def concatenate_validation_data_def
        getitem_def)

theorem fit_on_val_data_concatenates_witness:
  "concat (map fit_inputs
      (new_events example_world (snd (snd (search example_collab (Some 0) True large_kwargs
          (AutoTuner_init ''/tmp/proj'') example_world)))))
     = [Some (Dataset (replicate 100 0 @ replicate 20 1))]
   \<and> dataset_size (Dataset (replicate 100 0 @ replicate 20 1)) = 120"
proof -
  have x: "map_of large_kwargs ''x'' = Some (Dataset (replicate 100 0))"
    and v: "map_of large_kwargs ''validation_data'' = Some (Dataset (replicate 20 1))"
    by (simp_all add: large_kwargs_def)
  from fit_on_val_data_concatenates [OF example_tuner_not_finished example_world_valid x v
      large_search_completes]
  show ?thesis by simp
qed

lemma full_retrain_missing_validation_data:
  assumes "map_of kw ''validation_data'' = None"
  shows "\<exists>e. fst (full_retrain c cb True kw w) = Inl e"
    and "trace (snd (full_retrain c cb True kw w)) = trace w @ [GetBestTrials 1]"
    and "get_best_trials c 1 = Inr (t # ts) \<Longrightarrow> map_of kw ''x'' = Some (Dataset xs) \<Longrightarrow>
         fst (full_retrain c cb True kw w) = Inl (KeyError ''validation_data'')"
  using assms
  by (simp_all add: full_retrain_def Let_def alloc_def deepcopy_callbacks_def record_call_def
        concatenate_validation_data_def getitem_def map_of_update_callbacks
        split: sum.splits list.splits prod.splits option.splits)


text \<open>
  C7, as the claim states it, fails: with \<^verbatim>\<open>fit_on_val_data\<close> true and only \<^verbatim>\<open>x\<close> in
  \<^verbatim>\<open>fit_kwargs\<close>, the call raises the \<^verbatim>\<open>KeyError\<close> of the subscript
  \<^verbatim>\<open>fit_kwargs['validation_data']\<close>, not the invalid-argument error
  \<^verbatim>\<open>ValueError\<close>.
\<close>

theorem missing_validation_data_counterexample:
  "fst (search example_collab (Some 0) True [(''x'', Dataset [1, 2, 3])]
     (AutoTuner_init ''/tmp/proj'') example_world) = Some (KeyError ''validation_data'')"
  by (simp add: search_def inject_early_stopping_def super_search_def full_retrain_def
        tracked_best_model_def alloc_def assign_def record_call_def deepcopy_callbacks_def
        deref_def any_early_stopping_def example_collab_def example_world_def
        AutoTuner_init_def Let_def concatenate_validation_data_def getitem_def)

text \<open>
  C7, amended: with \<^verbatim>\<open>fit_on_val_data\<close> true and no \<^verbatim>\<open>validation_data\<close> in
  \<^verbatim>\<open>fit_kwargs\<close>, a call on a tuner that is not finished fails: it raises, builds
  and fits no model, saves no weights and leaves the finished flag false. When the
  base search has returned, the oracle has a best trial and \<^verbatim>\<open>x\<close> is a dataset, what
  is raised is \<^verbatim>\<open>KeyError('validation_data')\<close>.
\<close>

theorem missing_validation_data_fails:
  assumes "\<not> finished self" and "valid_callbacks w callbacks"
    and "map_of kw ''validation_data'' = None"
  shows "fst (search c callbacks True kw self w) \<noteq> None
     \<and> \<not> list_ex is_Build (new_events w (snd (snd (search c callbacks True kw self w))))
     \<and> \<not> list_ex is_Fit (new_events w (snd (snd (search c callbacks True kw self w))))
     \<and> \<not> list_ex is_SaveWeights
           (new_events w (snd (snd (search c callbacks True kw self w))))
     \<and> \<not> finished (fst (snd (search c callbacks True kw self w)))
     \<and> (snd (base_search c (working_list (caller_list w callbacks)) kw) = None
          \<and> (\<exists>t ts. get_best_trials c 1 = Inr (t # ts))
          \<and> (\<exists>xs. map_of kw ''x'' = Some (Dataset xs)) \<longrightarrow>
        fst (search c callbacks True kw self w) = Some (KeyError ''validation_data''))"
proof (cases "snd (base_search c (working_list (caller_list w callbacks)) kw)")
  case (Some e)
  from search_base_search_raises [OF assms(1,2) Some, of True] assms(1) Some
  show ?thesis by auto
next
  case None
  from search_after_base_search [OF assms(1,2), of c True kw] obtain cb ncb w2 where
    eq: "search c callbacks True kw self w =
      (case full_retrain c cb True kw w2 of
         (Inl e, w3) \<Rightarrow> (Some e, self, w3)
       | (Inr model, w3) \<Rightarrow>
           (let w4 = record_call (SaveWeights model (best_model_path self)) w3 in
            case save_weights c model (best_model_path self) of
              Some e \<Rightarrow> (Some e, self, w4)
            | None \<Rightarrow> (None, self\<lparr>finished := True\<rparr>, w4)))"
    and tr: "trace w2 = trace w @ [BaseSearch ncb (working_list (caller_list w callbacks)) kw]"
    using None by auto
  from full_retrain_missing_validation_data(1) [OF assms(3), of c cb w2]
  obtain e where e: "fst (full_retrain c cb True kw w2) = Inl e" ..
  have t3: "trace (snd (full_retrain c cb True kw w2)) = trace w2 @ [GetBestTrials 1]"
    using assms(3) by (rule full_retrain_missing_validation_data(2))
  obtain w3 where fr: "full_retrain c cb True kw w2 = (Inl e, w3)"
    using e by (cases "full_retrain c cb True kw w2") simp
  have res: "search c callbacks True kw self w = (Some e, self, w3)"
    by (simp add: eq fr)
  have ev: "new_events w w3 =
      [BaseSearch ncb (working_list (caller_list w callbacks)) kw, GetBestTrials 1]"
    using t3 by (simp add: fr tr new_events_def)
  have key: "(\<exists>t ts. get_best_trials c 1 = Inr (t # ts))
          \<and> (\<exists>xs. map_of kw ''x'' = Some (Dataset xs)) \<longrightarrow> e = KeyError ''validation_data''"
    using full_retrain_missing_validation_data(3) [OF assms(3), of c _ _ _ cb w2] e
    by auto
  from assms(1) key show ?thesis
    by (simp add: res ev)
qed

theorem missing_validation_data_fails_witness:
  "fst (search example_collab (Some 0) True [(''x'', Dataset [1, 2, 3])]
     (AutoTuner_init ''/tmp/proj'') example_world) = Some (KeyError ''validation_data'')
   \<and> \<not> list_ex is_Fit (new_events example_world (snd (snd (search example_collab (Some 0)
        True [(''x'', Dataset [1, 2, 3])] (AutoTuner_init ''/tmp/proj'') example_world))))
   \<and> \<not> finished (fst (snd (search example_collab (Some 0) True [(''x'', Dataset [1, 2, 3])]
        (AutoTuner_init ''/tmp/proj'') example_world)))"
proof -
  have m: "map_of [(''x'', Dataset [1, 2, 3])] ''validation_data'' = None"
    by simp
  have t: "\<exists>t ts. get_best_trials example_collab 1
      = Inr (t # ts :: nat trial list)"
    by (simp add: example_collab_def)
  have x: "\<exists>xs. map_of [(''x'', Dataset [1, 2, 3])] ''x'' = Some (Dataset xs)"
    by simp
  from missing_validation_data_fails [OF example_tuner_not_finished example_world_valid m,
      of example_collab]
    example_collab_base_search_returns t x
  show ?thesis by blast
qed

end
